theory Spec2Isabelle
  imports Main "HOL-Library.Sublist" "HOL-Library.List_Lexorder" "HOL-Library.Monad_Syntax"
begin

section \<open>The parsed document\<close>

text \<open>
  The converter works on the tree that the XML reader hands back. A node is either a
  tag (its name as the reader reports it, its attribute dictionary, its children) or a
  string-like leaf. The reader distinguishes several classes of leaves; only plain text
  and CDATA leaves count as text for \<open>get_text\<close>, while the \<open>.string\<close>
  property returns a leaf of any class.
\<close>

datatype string_kind = PlainText | CData | Comment | ProcessingInstruction | Declaration | Doctype

datatype node =
    Tag string "(string \<times> string) list" "node list"
  | NavigableString string_kind string

fun contents :: "node \<Rightarrow> node list" where
  "contents (Tag n a cs) = cs"
| "contents (NavigableString k s) = []"

text \<open>
  \<open>tag.descendants\<close>: every node below the tag, in document order (a node comes
  before its own children, and children come in sequence).
\<close>

fun descendants :: "node \<Rightarrow> node list" where
  "descendants (Tag n a cs) = concat (map (\<lambda>c. c # descendants c) cs)"
| "descendants (NavigableString k s) = []"

text \<open>
  The search filter of \<open>find\<close> and \<open>find_all\<close>: a tag whose name equals the
  wanted name and that carries every wanted attribute with exactly the wanted value.
  Strings never match a search by tag name.
\<close>

fun has_attr :: "node \<Rightarrow> string \<Rightarrow> bool" where
  "has_attr (Tag n a cs) k = (map_of a k \<noteq> None)"
| "has_attr (NavigableString kd s) k = False"

fun get_attr :: "node \<Rightarrow> string \<Rightarrow> string option" where
  "get_attr (Tag n a cs) k = map_of a k"
| "get_attr (NavigableString kd s) k = None"

fun matches :: "string \<Rightarrow> (string \<times> string) list \<Rightarrow> node \<Rightarrow> bool" where
  "matches nm want (Tag n a cs) = (n = nm \<and> list_all (\<lambda>kv. map_of a (fst kv) = Some (snd kv)) want)"
| "matches nm want (NavigableString k s) = False"

definition find_all :: "string \<Rightarrow> (string \<times> string) list \<Rightarrow> node \<Rightarrow> node list" where
  "find_all nm want t = filter (matches nm want) (descendants t)"

text \<open>\<open>find\<close> is \<open>find_all\<close> with a limit of one: the first hit, or nothing.\<close>

definition find_tag :: "string \<Rightarrow> (string \<times> string) list \<Rightarrow> node \<Rightarrow> node option" where
  "find_tag nm want t = (case find_all nm want t of [] \<Rightarrow> None | x # xs \<Rightarrow> Some x)"

text \<open>
  The \<open>.string\<close> property: a tag with exactly one child has the string of that child
  (the child itself when it is a leaf); a tag with no child or several children has none.
\<close>

fun tag_string :: "node \<Rightarrow> string option" where
  "tag_string (NavigableString k s) = Some s"
| "tag_string (Tag n a [c]) = tag_string c"
| "tag_string (Tag n a cs) = None"

text \<open>Truth value of an optional string in a condition: present and not empty.\<close>

fun truthy :: "string option \<Rightarrow> bool" where
  "truthy None = False"
| "truthy (Some s) = (s \<noteq> [])"

subsection \<open>Strings\<close>

text \<open>
  \<open>str.strip()\<close> removes white space at both ends. Characters are read as code points
  below 256; the white-space code points in that range are 9 to 13, 28 to 32, 133 and 160.
\<close>

definition isspace :: "char \<Rightarrow> bool" where
  "isspace c = ((of_char c :: nat) \<in> set [9, 10, 11, 12, 13, 28, 29, 30, 31, 32, 133, 160])"

definition strip :: "string \<Rightarrow> string" where
  "strip s = rev (dropWhile isspace (rev (dropWhile isspace s)))"

text \<open>
  \<open>get_text(strip=True)\<close>: the plain-text and CDATA leaves below the tag, each stripped,
  the empty ones dropped, joined without a separator.
\<close>

fun text_leaf :: "node \<Rightarrow> string list" where
  "text_leaf (NavigableString k s) = (if k = PlainText \<or> k = CData then [s] else [])"
| "text_leaf (Tag n a cs) = []"

definition stripped_strings :: "node \<Rightarrow> string list" where
  "stripped_strings t = filter (\<lambda>s. s \<noteq> []) (map strip (concat (map text_leaf (descendants t))))"

definition get_text :: "node \<Rightarrow> string" where
  "get_text t = concat (stripped_strings t)"

text \<open>
  \<open>str.replace(old, new)\<close>: every occurrence of \<open>old\<close>, found from the left without
  overlap, becomes \<open>new\<close>. (With an empty \<open>old\<close>, \<open>new\<close> goes before every
  character and at the end.)
\<close>

function replace :: "string \<Rightarrow> string \<Rightarrow> string \<Rightarrow> string" where
  "replace old new [] = (if old = [] then new else [])"
| "replace old new (c # cs) =
     (if old = [] then new @ c # replace old new cs
      else if prefix old (c # cs) then new @ replace old new (drop (length old) (c # cs))
      else c # replace old new cs)"
  by pat_completeness auto
termination
  by (relation "measure (\<lambda>(old, new, s). length s)") auto

text \<open>The decimal text of a number, as \<open>str(n)\<close> and an f-string give it.\<close>

definition digit_char :: "nat \<Rightarrow> char" where
  "digit_char n = char_of (48 + n)"

function str_nat :: "nat \<Rightarrow> string" where
  "str_nat n = (if n < 10 then [digit_char n] else str_nat (n div 10) @ [digit_char (n mod 10)])"
  by pat_completeness auto
termination
  by (relation "measure id") auto

declare str_nat.simps [simp del]

section \<open>Dates\<close>

text \<open>
  The date reader and the date formatter are library functions. The conversion takes
  them as parameters: \<open>isoparse\<close> answers \<open>None\<close> where the library raises, and so
  does \<open>format_datetime\<close>.
\<close>

record 'dt date_lib =
  isoparse :: "string \<Rightarrow> 'dt option"
  format_datetime :: "'dt \<Rightarrow> string option"

section \<open>Building the RSS tree\<close>

text \<open>\<open>new_tag(name)\<close> followed by \<open>tag.string = s\<close>: a tag with one plain-text child.\<close>

definition new_text_tag :: "string \<Rightarrow> string \<Rightarrow> node" where
  "new_text_tag nm s = Tag nm [] [NavigableString PlainText s]"

subsection \<open>Channel metadata\<close>

definition title_value :: "node \<Rightarrow> string" where
  "title_value atom_soup =
     (case find_tag ''title'' [] atom_soup of
        Some feed_title \<Rightarrow> get_text feed_title
      | None \<Rightarrow> ''Atom to RSS Feed'')"

definition link_value :: "node \<Rightarrow> string" where
  "link_value atom_soup =
     (case find_tag ''link'' [(''rel'', ''alternate'')] atom_soup of
        Some feed_link \<Rightarrow>
          (case get_attr feed_link ''href'' of
             Some href \<Rightarrow> href
           | None \<Rightarrow> ''http://example.com'')
      | None \<Rightarrow> ''http://example.com'')"

definition desc_value :: "node \<Rightarrow> string" where
  "desc_value atom_soup =
     (case find_tag ''subtitle'' [] atom_soup of
        Some feed_subtitle \<Rightarrow> get_text feed_subtitle
      | None \<Rightarrow> ''Converted from Atom feed'')"

subsection \<open>One entry\<close>

definition item_title :: "node \<Rightarrow> node list" where
  "item_title entry =
     (case find_tag ''title'' [] entry of
        Some entry_title \<Rightarrow> [new_text_tag ''title'' (get_text entry_title)]
      | None \<Rightarrow> [])"

definition item_link :: "node \<Rightarrow> node list" where
  "item_link entry =
     (case find_tag ''link'' [(''rel'', ''alternate'')] entry of
        Some alt_link \<Rightarrow>
          (case get_attr alt_link ''href'' of
             Some href \<Rightarrow> [new_text_tag ''link'' href]
           | None \<Rightarrow> [])
      | None \<Rightarrow> [])"

text \<open>
  The date string of an entry: the test on \<open>published\<close> looks at the string as it
  stands, and only the chosen string is stripped.
\<close>

definition element_string :: "node option \<Rightarrow> string option" where
  "element_string t = (case t of None \<Rightarrow> None | Some tg \<Rightarrow> tag_string tg)"

definition date_str :: "node \<Rightarrow> string option" where
  "date_str entry =
     (let published_tag = find_tag ''published'' [] entry;
          updated_tag = find_tag ''updated'' [] entry
      in if truthy (element_string published_tag)
           then map_option strip (element_string published_tag)
         else if truthy (element_string updated_tag)
           then map_option strip (element_string updated_tag)
         else None)"

text \<open>
  The \<open>try\<close> block: any failure of the reader or of the formatter leaves the item
  without a \<open>pubDate\<close>.
\<close>

definition item_pubdate :: "'dt date_lib \<Rightarrow> node \<Rightarrow> node list" where
  "item_pubdate L entry =
     (case date_str entry of
        None \<Rightarrow> []
      | Some d \<Rightarrow>
          if d = [] then []
          else (case isoparse L d of
                  None \<Rightarrow> []
                | Some dt \<Rightarrow>
                    (case format_datetime L dt of
                       None \<Rightarrow> []
                     | Some rfc_822_date \<Rightarrow> [new_text_tag ''pubDate'' rfc_822_date])))"

definition safe_html :: "string \<Rightarrow> string" where
  "safe_html raw_html = replace '']]>'' '']]]]><![CDATA[>'' raw_html"

definition cdata_str :: "string \<Rightarrow> string" where
  "cdata_str raw_html = ''<![CDATA['' @ safe_html raw_html @ '']]>''"

definition item_content :: "node \<Rightarrow> node list" where
  "item_content entry =
     (case element_string (find_tag ''content'' [] entry) of
        None \<Rightarrow> []
      | Some raw_html \<Rightarrow>
          if raw_html = [] then []
          else [new_text_tag ''content:encoded'' (cdata_str raw_html)])"

definition convert_entry :: "'dt date_lib \<Rightarrow> node \<Rightarrow> node" where
  "convert_entry L entry =
     Tag ''item'' [] (item_title entry @ item_link entry @ item_pubdate L entry @ item_content entry)"

subsection \<open>The loop over the entries\<close>

text \<open>
  The state of the loop is the list of children of the channel and the counter; each
  round appends one item and adds one.
\<close>

fun convert_entries :: "'dt date_lib \<Rightarrow> node list \<Rightarrow> node list \<times> nat \<Rightarrow> node list \<times> nat" where
  "convert_entries L [] (channel, count_items) = (channel, count_items)"
| "convert_entries L (entry # entries) (channel, count_items) =
     convert_entries L entries (channel @ [convert_entry L entry], count_items + 1)"

definition build_rss :: "'dt date_lib \<Rightarrow> node \<Rightarrow> node \<times> nat" where
  "build_rss L atom_soup =
     (let head = [new_text_tag ''title'' (title_value atom_soup),
                  new_text_tag ''link'' (link_value atom_soup),
                  new_text_tag ''description'' (desc_value atom_soup)];
          (channel, count_items) = convert_entries L (find_all ''entry'' [] atom_soup) (head, 0);
          channel_tag = Tag ''channel'' [] channel;
          rss_tag = Tag ''rss'' [(''version'', ''2.0''),
                      (''xmlns:content'', ''http://purl.org/rss/1.0/modules/content/'')] [channel_tag]
      in (Tag ''[document]'' [] [rss_tag], count_items))"

section \<open>The whole conversion\<close>

text \<open>
  Reading the input file, the XML reader, the serialiser and the write to the output file
  are outside the program; each is a parameter. A reader or a file operation that raises
  answers with the message of the exception.
\<close>

record io_lib =
  read_text :: "string \<Rightarrow> string + string"
  BeautifulSoup :: "string \<Rightarrow> string + node"
  prettify :: "node \<Rightarrow> string"
  write_text :: "string \<Rightarrow> string \<Rightarrow> string option"

record app =
  input_file_path :: "string option"
  output_file_path :: "string option"
  log_area :: string

datatype messagebox = ShowError string string | ShowInfo string string

definition log :: "string \<Rightarrow> app \<Rightarrow> app" where
  "log message a = a\<lparr>log_area := log_area a @ message @ [CHR 0x0A]\<rparr>"

text \<open>
  The result is the application afterwards, the dialog shown, and the call made to write
  the output file (path and text), if the run got that far.
\<close>

definition process_feed ::
  "'dt date_lib \<Rightarrow> io_lib \<Rightarrow> app \<Rightarrow> app \<times> messagebox \<times> (string \<times> string) option" where
  "process_feed L io a =
     (if \<not> truthy (input_file_path a) then (a, ShowError ''Error'' ''No input file selected.'', None)
      else if \<not> truthy (output_file_path a) then (a, ShowError ''Error'' ''No output file selected.'', None)
      else
        (case read_text io (the (input_file_path a)) of
           Inl e \<Rightarrow> (log (''ERROR reading input file: '' @ e) a, ShowError ''File Read Error'' e, None)
         | Inr atom_data \<Rightarrow>
             (case BeautifulSoup io atom_data of
                Inl e \<Rightarrow> (log (''ERROR parsing XML: '' @ e) a, ShowError ''XML Parse Error'' e, None)
              | Inr atom_soup \<Rightarrow>
                  (let (rss_soup, count_items) = build_rss L atom_soup;
                       out = prettify io rss_soup;
                       written = Some (the (output_file_path a), out)
                   in case write_text io (the (output_file_path a)) out of
                        Some e \<Rightarrow> (log (''ERROR writing output file: '' @ e) a, ShowError ''Write Error'' e, written)
                      | None \<Rightarrow>
                          (let msg = ''Successfully created RSS 2.0 feed with '' @ str_nat count_items
                                       @ '' <item> entries.''
                           in (log msg a, ShowInfo ''Done'' msg, written))))))"

section \<open>A model of the two date functions\<close>

text \<open>
  Modelled from the spec: the library functions \<open>isoparse\<close> and
  \<open>format_datetime\<close> are not part of the sources. The model reads an ISO 8601
  date-time in the extended form \<open>YYYY-MM-DDThh:mm:ss\<close>, with an optional fraction of
  a second and an optional UTC offset (\<open>Z\<close> or \<open>+hh:mm\<close> / \<open>-hh:mm\<close>),
  and renders a date-time in the RFC 822 form \<open>Wed, 28 Jun 2017 08:15:00 -0700\<close>.
  Other ISO 8601 forms are not covered: the model reader answers \<open>None\<close> on them.
\<close>

record datetime =
  year :: nat
  month :: nat
  day :: nat
  hour :: nat
  minute :: nat
  second :: nat
  microsecond :: nat
  utcoffset :: "int option"

definition is_digit :: "char \<Rightarrow> bool" where
  "is_digit c = (48 \<le> (of_char c :: nat) \<and> (of_char c :: nat) \<le> 57)"

definition digit_val :: "char \<Rightarrow> nat" where
  "digit_val c = of_char c - 48"

definition read_nat :: "string \<Rightarrow> nat option" where
  "read_nat s =
     (if s \<noteq> [] \<and> list_all is_digit s
        then Some (foldl (\<lambda>a c. 10 * a + digit_val c) 0 s)
      else None)"

definition is_leap :: "nat \<Rightarrow> bool" where
  "is_leap y = (y mod 4 = 0 \<and> (y mod 100 \<noteq> 0 \<or> y mod 400 = 0))"

definition days_in_month :: "nat \<Rightarrow> nat \<Rightarrow> nat" where
  "days_in_month y m =
     (if m = 2 then (if is_leap y then 29 else 28)
      else if m = 4 \<or> m = 6 \<or> m = 9 \<or> m = 11 then 30
      else 31)"

definition days_before_year :: "nat \<Rightarrow> nat" where
  "days_before_year y = (y - 1) * 365 + (y - 1) div 4 + (y - 1) div 400 - (y - 1) div 100"

definition days_before_month :: "nat \<Rightarrow> nat \<Rightarrow> nat" where
  "days_before_month y m =
     [0, 31, 59, 90, 120, 151, 181, 212, 243, 273, 304, 334] ! (m - 1)
       + (if 2 < m \<and> is_leap y then 1 else 0)"

text \<open>The day of the week, Monday being 0, from the number of the day since 1 January of year 1.\<close>

definition weekday :: "nat \<Rightarrow> nat \<Rightarrow> nat \<Rightarrow> nat" where
  "weekday y m d = (days_before_year y + days_before_month y m + d + 6) mod 7"

definition valid_datetime :: "datetime \<Rightarrow> bool" where
  "valid_datetime dt =
     (1 \<le> year dt \<and> year dt \<le> 9999 \<and> 1 \<le> month dt \<and> month dt \<le> 12
      \<and> 1 \<le> day dt \<and> day dt \<le> days_in_month (year dt) (month dt)
      \<and> hour dt \<le> 23 \<and> minute dt \<le> 59 \<and> second dt \<le> 59 \<and> microsecond dt \<le> 999999
      \<and> (case utcoffset dt of None \<Rightarrow> True | Some z \<Rightarrow> - 1440 < z \<and> z < 1440))"

text \<open>The fraction of a second: a point or a comma and at least one digit; six digits count.\<close>

definition parse_fraction :: "string \<Rightarrow> (nat \<times> string) option" where
  "parse_fraction r =
     (case r of
        [] \<Rightarrow> Some (0, [])
      | c # cs \<Rightarrow>
          if c = CHR ''.'' \<or> c = CHR '','' then
            (if takeWhile is_digit cs = [] then None
             else Some (foldl (\<lambda>a c. 10 * a + digit_val c) 0
                          (take 6 (takeWhile is_digit cs @ replicate 6 (CHR ''0''))),
                        dropWhile is_digit cs))
          else Some (0, r))"

text \<open>
  The offset in minutes east of UTC: nothing (no offset given), \<open>Z\<close>, or a sign, two
  digits of hours, a colon and two digits of minutes.
\<close>

definition parse_offset :: "string \<Rightarrow> int option option" where
  "parse_offset r =
     (if r = [] then Some None
      else if r = ''Z'' then Some (Some 0)
      else if length r = 6 \<and> (r ! 0 = CHR ''+'' \<or> r ! 0 = CHR ''-'') \<and> r ! 3 = CHR '':'' then
        do {
          h \<leftarrow> read_nat (take 2 (drop 1 r));
          m \<leftarrow> read_nat (drop 4 r);
          if h \<le> 23 \<and> m \<le> 59
            then Some (Some ((if r ! 0 = CHR ''-'' then - 1 else 1) * int (h * 60 + m)))
          else None
        }
      else None)"

text \<open>
  Modelled from the spec: the reader of an ISO 8601 date-time, standing for the library's
  \<open>isoparse\<close>, which is not part of the sources. It answers \<open>None\<close> where the text
  is not of the form described above or names no real date or time.
\<close>

definition iso8601_parse :: "string \<Rightarrow> datetime option" where
  "iso8601_parse s =
     (if length s < 19 \<or> s ! 4 \<noteq> CHR ''-'' \<or> s ! 7 \<noteq> CHR ''-'' \<or> s ! 10 \<noteq> CHR ''T''
         \<or> s ! 13 \<noteq> CHR '':'' \<or> s ! 16 \<noteq> CHR '':'' then None
      else
        do {
          y \<leftarrow> read_nat (take 4 s);
          m \<leftarrow> read_nat (take 2 (drop 5 s));
          d \<leftarrow> read_nat (take 2 (drop 8 s));
          hh \<leftarrow> read_nat (take 2 (drop 11 s));
          mm \<leftarrow> read_nat (take 2 (drop 14 s));
          ss \<leftarrow> read_nat (take 2 (drop 17 s));
          (us, r) \<leftarrow> parse_fraction (drop 19 s);
          off \<leftarrow> parse_offset r;
          (let dt = \<lparr>year = y, month = m, day = d, hour = hh, minute = mm, second = ss,
                       microsecond = us, utcoffset = off\<rparr>
           in if valid_datetime dt then Some dt else None)
        })"

definition two_digits :: "nat \<Rightarrow> string" where
  "two_digits n = [digit_char (n div 10 mod 10), digit_char (n mod 10)]"

definition four_digits :: "nat \<Rightarrow> string" where
  "four_digits n =
     [digit_char (n div 1000 mod 10), digit_char (n div 100 mod 10),
      digit_char (n div 10 mod 10), digit_char (n mod 10)]"

definition day_name :: "nat \<Rightarrow> string" where
  "day_name w = [''Mon'', ''Tue'', ''Wed'', ''Thu'', ''Fri'', ''Sat'', ''Sun''] ! w"

definition month_name :: "nat \<Rightarrow> string" where
  "month_name m =
     [''Jan'', ''Feb'', ''Mar'', ''Apr'', ''May'', ''Jun'',
      ''Jul'', ''Aug'', ''Sep'', ''Oct'', ''Nov'', ''Dec''] ! (m - 1)"

text \<open>The zone: \<open>-0000\<close> for a date-time without offset, else sign, hours and minutes.\<close>

definition zone_text :: "int option \<Rightarrow> string" where
  "zone_text off =
     (case off of
        None \<Rightarrow> ''-0000''
      | Some z \<Rightarrow>
          (if z < 0 then ''-'' else ''+'') @ two_digits (nat \<bar>z\<bar> div 60) @ two_digits (nat \<bar>z\<bar> mod 60))"

text \<open>
  Modelled from the spec: the RFC 822 rendering of a date-time, standing for the library's
  \<open>format_datetime\<close>, which is not part of the sources: day name, day, month name,
  year, time and zone, the fraction of a second dropped.
\<close>

definition rfc822_format :: "datetime \<Rightarrow> string option" where
  "rfc822_format dt =
     (if valid_datetime dt then
        Some (day_name (weekday (year dt) (month dt) (day dt)) @ '', '' @ two_digits (day dt) @ '' ''
              @ month_name (month dt) @ '' '' @ four_digits (year dt) @ '' ''
              @ two_digits (hour dt) @ '':'' @ two_digits (minute dt) @ '':'' @ two_digits (second dt)
              @ '' '' @ zone_text (utcoffset dt))
      else None)"

definition model_dates :: "datetime date_lib" where
  "model_dates = \<lparr>isoparse = iso8601_parse, format_datetime = rfc822_format\<rparr>"

section \<open>Notions used to state the properties\<close>

text \<open>
  A position in a tree is the list of child indices leading to it; document order is the
  order of positions in which a node comes before everything below it and before
  everything under its later siblings, that is, the lexicographic order on index lists.
\<close>

fun subtree :: "node \<Rightarrow> nat list \<Rightarrow> node option" where
  "subtree t [] = Some t"
| "subtree (Tag n a cs) (i # p) = (if i < length cs then subtree (cs ! i) p else None)"
| "subtree (NavigableString k s) (i # p) = None"

text \<open>The number of tags of a given name below a node, counted by recursion on the tree.\<close>

fun count_tags :: "string \<Rightarrow> node \<Rightarrow> nat" where
  "count_tags nm (Tag n a cs) =
     sum_list (map (\<lambda>c. (if matches nm [] c then 1 else 0) + count_tags nm c) cs)"
| "count_tags nm (NavigableString k s) = 0"



definition children_named :: "string \<Rightarrow> node \<Rightarrow> node list" where
  "children_named nm t = filter (matches nm []) (contents t)"


definition date_time_text :: "nat \<Rightarrow> nat \<Rightarrow> nat \<Rightarrow> nat \<Rightarrow> nat \<Rightarrow> nat \<Rightarrow> string" where
  "date_time_text y m d hh mm ss =
     four_digits y @ ''-'' @ two_digits m @ ''-'' @ two_digits d @ ''T''
       @ two_digits hh @ '':'' @ two_digits mm @ '':'' @ two_digits ss"

definition rfc822_text :: "nat \<Rightarrow> nat \<Rightarrow> nat \<Rightarrow> nat \<Rightarrow> nat \<Rightarrow> nat \<Rightarrow> string \<Rightarrow> string" where
  "rfc822_text y m d hh mm ss zone =
     day_name (weekday y m d) @ '', '' @ two_digits d @ '' '' @ month_name m @ '' ''
       @ four_digits y @ '' '' @ two_digits hh @ '':'' @ two_digits mm @ '':'' @ two_digits ss
       @ '' '' @ zone"

section \<open>Sample inputs\<close>

definition sample_feed :: node where
  "sample_feed =
     Tag ''[document]'' [] [Tag ''feed'' [] [
       Tag ''title'' [] [NavigableString PlainText ''News''],
       Tag ''entry'' [] [Tag ''title'' [] [NavigableString PlainText ''One'']],
       Tag ''entry'' [] []]]"

definition sample_io :: io_lib where
  "sample_io = \<lparr>read_text = (\<lambda>p. Inr ''<feed/>''), BeautifulSoup = (\<lambda>s. Inr sample_feed),
     prettify = (\<lambda>t. ''<rss/>''), write_text = (\<lambda>p s. None)\<rparr>"

definition sample_app :: app where
  "sample_app = \<lparr>input_file_path = Some ''in.xml'', output_file_path = Some ''out.xml'', log_area = []\<rparr>"





definition blank_published_entry :: node where
  "blank_published_entry =
     Tag ''entry'' [] [
       Tag ''published'' [] [NavigableString PlainText '' ''],
       Tag ''updated'' [] [NavigableString PlainText ''2020-01-01T00:00:00Z'']]"

definition updated_only_entry :: node where
  "updated_only_entry =
     Tag ''entry'' [] [Tag ''updated'' [] [NavigableString PlainText ''2020-01-01T00:00:00Z'']]"

definition published_entry :: node where
  "published_entry =
     Tag ''entry'' [] [
       Tag ''updated'' [] [NavigableString PlainText ''2020-01-01T00:00:00Z''],
       Tag ''published'' [] [NavigableString PlainText ''2017-06-28T08:15:00.001-07:00'']]"

definition bad_date_entry :: node where
  "bad_date_entry =
     Tag ''entry'' [] [
       Tag ''title'' [] [NavigableString PlainText ''A''],
       Tag ''published'' [] [NavigableString PlainText ''not-a-date'']]"

definition mixed_feed :: node where
  "mixed_feed = Tag ''[document]'' [] [Tag ''feed'' [] [bad_date_entry, published_entry]]"

definition mixed_io :: io_lib where
  "mixed_io = \<lparr>read_text = (\<lambda>p. Inr ''<feed/>''), BeautifulSoup = (\<lambda>s. Inr mixed_feed),
     prettify = (\<lambda>t. ''<rss/>''), write_text = (\<lambda>p s. None)\<rparr>"

definition empty_title_entry :: node where
  "empty_title_entry = Tag ''entry'' [] [Tag ''title'' [] []]"

definition full_entry :: node where
  "full_entry =
     Tag ''entry'' [] [
       Tag ''title'' [] [NavigableString PlainText '' One ''],
       Tag ''link'' [(''rel'', ''alternate''), (''href'', ''http://a.example/1'')] [],
       Tag ''content'' [] [NavigableString PlainText ''<p>x</p>'']]"

definition wrapped_content_entry :: node where
  "wrapped_content_entry =
     Tag ''entry'' [] [Tag ''content'' [] [Tag ''div'' [] [NavigableString PlainText ''hello'']]]"

definition mixed_content_entry :: node where
  "mixed_content_entry =
     Tag ''entry'' [] [Tag ''content'' []
       [NavigableString PlainText ''Hello '', Tag ''b'' [] [NavigableString PlainText ''world'']]]"


definition nested_entry :: node where
  "nested_entry =
     Tag ''entry'' [] [
       Tag ''source'' [] [
         Tag ''title'' [] [NavigableString PlainText ''Deep''],
         Tag ''meta'' [] [Tag ''published'' [] [NavigableString PlainText ''2020-01-01T00:00:00Z'']]],
       Tag ''title'' [] [NavigableString PlainText ''Shallow'']]"

section \<open>Properties of the tree functions\<close>

lemma convert_entries_eq:
  "convert_entries L es (ch, n) = (ch @ map (convert_entry L) es, n + length es)"
  by (induction es arbitrary: ch n) simp_all

lemma length_find_all_count:
  "length (find_all nm [] t) = count_tags nm t"
proof (induction t rule: descendants.induct)
  case (1 n a cs)
  have "length (filter (matches nm []) (concat (map (\<lambda>c. c # descendants c) cs)))
        = sum_list (map (\<lambda>c. (if matches nm [] c then 1 else 0) + count_tags nm c) cs)"
    using 1
  proof (induction cs)
    case Nil
    then show ?case by simp
  next
    case (Cons c cs)
    then show ?case by (simp add: find_all_def)
  qed
  then show ?case by (simp add: find_all_def)
next
  case (2 k s)
  then show ?case by (simp add: find_all_def)
qed

lemma item_parts:
  "item_title e = [] \<or> (\<exists>s. item_title e = [new_text_tag ''title'' s])"
  "item_link e = [] \<or> (\<exists>s. item_link e = [new_text_tag ''link'' s])"
  "item_pubdate L e = [] \<or> (\<exists>s. item_pubdate L e = [new_text_tag ''pubDate'' s])"
  "item_content e = [] \<or> (\<exists>s. item_content e = [new_text_tag ''content:encoded'' s])"
  by (auto simp: item_title_def item_link_def item_pubdate_def item_content_def split: option.splits)

lemma no_item_below_item:
  "filter (matches ''item'' []) (descendants (convert_entry L e)) = []"
  using item_parts(1)[of e] item_parts(2)[of e] item_parts(3)[of L e] item_parts(4)[of e]
  by (auto simp: convert_entry_def new_text_tag_def)

lemma items_found:
  "filter (matches ''item'' []) (concat (map ((\<lambda>c. c # descendants c) \<circ> convert_entry L) es))
   = map (convert_entry L) es"
proof (induction es)
  case Nil
  then show ?case by simp
next
  case (Cons e es)
  have "matches ''item'' [] (convert_entry L e)" by (simp add: convert_entry_def)
  with Cons show ?case by (simp add: no_item_below_item)
qed

lemma build_rss_eq:
  "build_rss L soup =
     (Tag ''[document]'' [] [Tag ''rss'' [(''version'', ''2.0''),
        (''xmlns:content'', ''http://purl.org/rss/1.0/modules/content/'')]
        [Tag ''channel'' []
           ([new_text_tag ''title'' (title_value soup), new_text_tag ''link'' (link_value soup),
             new_text_tag ''description'' (desc_value soup)]
            @ map (convert_entry L) (find_all ''entry'' [] soup))]],
      length (find_all ''entry'' [] soup))"
  by (simp add: build_rss_def convert_entries_eq)

lemma find_all_items:
  "find_all ''item'' [] (fst (build_rss L soup)) = map (convert_entry L) (find_all ''entry'' [] soup)"
  by (simp add: build_rss_eq find_all_def items_found new_text_tag_def)

lemma find_tag_None: "find_tag nm want t = None \<longleftrightarrow> find_all nm want t = []"
  by (simp add: find_tag_def split: list.splits)

lemma find_tag_Some: "find_tag nm want t = Some x \<longleftrightarrow> (\<exists>xs. find_all nm want t = x # xs)"
  by (simp add: find_tag_def split: list.splits)


lemma item_children:
  "children_named ''title'' (convert_entry L e) = item_title e"
  "children_named ''link'' (convert_entry L e) = item_link e"
  "children_named ''pubDate'' (convert_entry L e) = item_pubdate L e"
  "children_named ''content:encoded'' (convert_entry L e) = item_content e"
  using item_parts(1)[of e] item_parts(2)[of e] item_parts(3)[of L e] item_parts(4)[of e]
  by (auto simp: children_named_def convert_entry_def new_text_tag_def)

lemma item_pubdate_bind:
  "item_pubdate L e =
     (case date_str e of
        None \<Rightarrow> []
      | Some d \<Rightarrow>
          if d = [] then []
          else (case Option.bind (isoparse L d) (format_datetime L) of
                  None \<Rightarrow> []
                | Some r \<Rightarrow> [new_text_tag ''pubDate'' r]))"
  by (simp add: item_pubdate_def split: option.splits)


lemma date_str_cases:
  "date_str e =
     (if truthy (element_string (find_tag ''published'' [] e))
        then map_option strip (element_string (find_tag ''published'' [] e))
      else if truthy (element_string (find_tag ''updated'' [] e))
        then map_option strip (element_string (find_tag ''updated'' [] e))
      else None)"
  by (simp add: date_str_def)

subsection \<open>Positions and document order\<close>

lemma subtree_child:
  "subtree (Tag n a cs) q = Some x \<and> q \<noteq> [] \<longleftrightarrow>
     (\<exists>j r. q = j # r \<and> j < length cs \<and> subtree (cs ! j) r = Some x)"
  by (cases q) auto

lemma descendants_positions:
  "x \<in> set (descendants e) \<longleftrightarrow> (\<exists>p. p \<noteq> [] \<and> subtree e p = Some x)"
proof (induction e arbitrary: x rule: descendants.induct)
  case (1 n a cs)
  have "x \<in> set (descendants (Tag n a cs))
      \<longleftrightarrow> (\<exists>c \<in> set cs. x = c \<or> x \<in> set (descendants c))"
    by auto
  also have "\<dots> \<longleftrightarrow> (\<exists>c \<in> set cs. \<exists>r. subtree c r = Some x)"
  proof (intro bex_cong refl)
    fix c assume c: "c \<in> set cs"
    have "(\<exists>r. subtree c r = Some x) \<longleftrightarrow> subtree c [] = Some x \<or> (\<exists>r. r \<noteq> [] \<and> subtree c r = Some x)"
      by (metis)
    with 1 [OF c] show "(x = c \<or> x \<in> set (descendants c)) \<longleftrightarrow> (\<exists>r. subtree c r = Some x)"
      by auto
  qed
  also have "\<dots> \<longleftrightarrow> (\<exists>j r. j < length cs \<and> subtree (cs ! j) r = Some x)"
    by (metis in_set_conv_nth)
  also have "\<dots> \<longleftrightarrow> (\<exists>p. p \<noteq> [] \<and> subtree (Tag n a cs) p = Some x)"
    using subtree_child [of n a cs _ x] by blast
  finally show ?case .
next
  case (2 k s)
  show ?case
    by (auto simp: neq_Nil_conv)
qed

lemma no_match_below:
  assumes "filter P (descendants c) = []" "\<not> P c"
  shows "subtree c q = Some t' \<Longrightarrow> \<not> P t'"
proof (cases q)
  case Nil
  assume "subtree c q = Some t'"
  with Nil assms(2) show ?thesis by simp
next
  case (Cons j r)
  assume "subtree c q = Some t'"
  with Cons have "t' \<in> set (descendants c)"
    using descendants_positions [of t' c] by blast
  with assms(1) show ?thesis
    by (simp add: filter_empty_conv)
qed

lemma first_in_forest:
  assumes "\<And>c t ts. c \<in> set cs \<Longrightarrow> filter P (descendants c) = t # ts \<Longrightarrow>
      \<exists>p. p \<noteq> [] \<and> subtree c p = Some t
        \<and> (\<forall>q t'. q \<noteq> [] \<and> subtree c q = Some t' \<and> P t' \<longrightarrow> p \<le> q)"
    and "filter P (concat (map (\<lambda>c. c # descendants c) cs)) = t # ts"
  shows "\<exists>i p. i < length cs \<and> subtree (cs ! i) p = Some t
      \<and> (\<forall>j q t'. j < length cs \<and> subtree (cs ! j) q = Some t' \<and> P t' \<longrightarrow> i # p \<le> j # q)"
  using assms
proof (induction cs)
  case Nil
  then show ?case by simp
next
  case (Cons c cs)
  consider (self) "P c"
    | (below) "\<not> P c" "filter P (descendants c) \<noteq> []"
    | (later) "\<not> P c" "filter P (descendants c) = []"
    by blast
  then show ?case
  proof cases
    case self
    with Cons.prems(2) have "t = c" by simp
    then have "subtree ((c # cs) ! 0) [] = Some t" by simp
    moreover have "[0::nat] \<le> j # q" for j q
      by (cases "j = 0") simp_all
    ultimately show ?thesis by blast
  next
    case below
    then obtain u us where u: "filter P (descendants c) = u # us"
      by (cases "filter P (descendants c)") simp_all
    with below Cons.prems(2) have "t = u" by simp
    with u Cons.prems(1) [of c t us] obtain p where p: "p \<noteq> []" "subtree c p = Some t"
      "\<forall>q t'. q \<noteq> [] \<and> subtree c q = Some t' \<and> P t' \<longrightarrow> p \<le> q"
      by auto
    have "0 # p \<le> j # q" if "j < length (c # cs)" "subtree ((c # cs) ! j) q = Some t'" "P t'" for j q t'
    proof (cases j)
      case 0
      with that below(1) have "q \<noteq> []" by (cases q) auto
      with that 0 p(3) show ?thesis by auto
    next
      case (Suc k)
      then show ?thesis by simp
    qed
    with p(2) show ?thesis
      by (intro exI [of _ 0] exI [of _ p]) auto
  next
    case later
    with Cons.prems(2) have rest: "filter P (concat (map (\<lambda>c. c # descendants c) cs)) = t # ts"
      by simp
    from Cons.IH [OF _ rest] Cons.prems(1)
    obtain i p where ip: "i < length cs" "subtree (cs ! i) p = Some t"
      "\<forall>j q t'. j < length cs \<and> subtree (cs ! j) q = Some t' \<and> P t' \<longrightarrow> i # p \<le> j # q"
      by (metis list.set_intros(2))
    have "Suc i # p \<le> j # q" if "j < length (c # cs)" "subtree ((c # cs) ! j) q = Some t'" "P t'" for j q t'
    proof (cases j)
      case 0
      with that no_match_below [OF later(2,1), of q t'] show ?thesis by simp
    next
      case (Suc k)
      with that ip(3) have "i # p \<le> k # q" by auto
      with Suc show ?thesis by auto
    qed
    with ip(1,2) show ?thesis
      by (intro exI [of _ "Suc i"] exI [of _ p]) auto
  qed
qed

lemma first_in_tree:
  "filter P (descendants e) = t # ts \<Longrightarrow>
     \<exists>p. p \<noteq> [] \<and> subtree e p = Some t
       \<and> (\<forall>q t'. q \<noteq> [] \<and> subtree e q = Some t' \<and> P t' \<longrightarrow> p \<le> q)"
proof (induction e arbitrary: t ts rule: descendants.induct)
  case (1 n a cs)
  from 1(2) have forest: "filter P (concat (map (\<lambda>c. c # descendants c) cs)) = t # ts"
    by simp
  have "\<exists>i p. i < length cs \<and> subtree (cs ! i) p = Some t
      \<and> (\<forall>j q t'. j < length cs \<and> subtree (cs ! j) q = Some t' \<and> P t' \<longrightarrow> i # p \<le> j # q)"
  proof (rule first_in_forest)
    show "filter P (concat (map (\<lambda>c. c # descendants c) cs)) = t # ts"
      by (fact forest)
    show "\<exists>p. p \<noteq> [] \<and> subtree c p = Some u
        \<and> (\<forall>q t'. q \<noteq> [] \<and> subtree c q = Some t' \<and> P t' \<longrightarrow> p \<le> q)"
      if "c \<in> set cs" "filter P (descendants c) = u # us" for c u us
      using that by (rule 1(1))
  qed
  then obtain i p where ip: "i < length cs" "subtree (cs ! i) p = Some t"
      "\<forall>j q t'. j < length cs \<and> subtree (cs ! j) q = Some t' \<and> P t' \<longrightarrow> i # p \<le> j # q"
    by blast
  have "i # p \<le> q" if "q \<noteq> []" "subtree (Tag n a cs) q = Some t'" "P t'" for q t'
    using that ip(3) subtree_child [of n a cs q t'] by blast
  with ip(1,2) show ?case
    by (intro exI [of _ "i # p"]) auto
next
  case (2 k s)
  then show ?case by simp
qed

section \<open>Properties of the date model\<close>

lemma digit_char_props:
  "k < 10 \<Longrightarrow> is_digit (digit_char k)" "k < 10 \<Longrightarrow> digit_val (digit_char k) = k"
  by (simp_all add: is_digit_def digit_val_def digit_char_def)

lemma read_two_digits: "n < 100 \<Longrightarrow> read_nat (two_digits n) = Some n"
  by (simp add: read_nat_def two_digits_def digit_char_props)

lemma four_digit_sum:
  fixes n :: nat
  assumes "n < 10000"
  shows "1000 * (n div 1000) + 100 * (n div 100 mod 10) + 10 * (n div 10 mod 10) + n mod 10 = n"
proof -
  have a: "n mod 100 = 10 * (n div 10 mod 10) + n mod 10"
    using mod_mult2_eq [of n 10 10] by simp
  have b: "n mod 1000 = 100 * (n div 100 mod 10) + n mod 100"
    using mod_mult2_eq [of n 100 10] by simp
  have "n = 1000 * (n div 1000) + n mod 1000"
    by simp
  with a b show ?thesis by simp
qed

lemma read_four_digits: "n < 10000 \<Longrightarrow> read_nat (four_digits n) = Some n"
  by (simp add: read_nat_def four_digits_def digit_char_props four_digit_sum)

lemma length_digits [simp]: "length (two_digits n) = 2" "length (four_digits n) = 4"
  by (simp_all add: two_digits_def four_digits_def)

lemma iso8601_parse_fields:
  assumes "length sy = 4" "length sm = 2" "length sd = 2" "length sH = 2" "length sM = 2" "length sS = 2"
  shows "iso8601_parse (sy @ ''-'' @ sm @ ''-'' @ sd @ ''T'' @ sH @ '':'' @ sM @ '':'' @ sS @ tail) =
     do {
          y \<leftarrow> read_nat sy;
          m \<leftarrow> read_nat sm;
          d \<leftarrow> read_nat sd;
          hh \<leftarrow> read_nat sH;
          mm \<leftarrow> read_nat sM;
          ss \<leftarrow> read_nat sS;
          (us, r) \<leftarrow> parse_fraction tail;
          off \<leftarrow> parse_offset r;
          (let dt = \<lparr>year = y, month = m, day = d, hour = hh, minute = mm, second = ss,
                       microsecond = us, utcoffset = off\<rparr>
           in if valid_datetime dt then Some dt else None)
        }"
  using assms by (simp add: iso8601_parse_def nth_append)




lemma iso8601_parse_tail:
  assumes "1 \<le> y" "y \<le> 9999" "1 \<le> m" "m \<le> 12" "1 \<le> d" "d \<le> days_in_month y m"
    and "hh \<le> 23" "mm \<le> 59" "ss \<le> 59"
    and "parse_fraction tail = Some (us, r)" "us \<le> 999999"
    and "parse_offset r = Some off" "case off of None \<Rightarrow> True | Some z \<Rightarrow> - 1440 < z \<and> z < 1440"
  shows "iso8601_parse (date_time_text y m d hh mm ss @ tail)
         = Some \<lparr>year = y, month = m, day = d, hour = hh, minute = mm, second = ss,
                  microsecond = us, utcoffset = off\<rparr>"
proof -
  have "d \<le> 31"
    using assms(6) by (simp add: days_in_month_def split: if_splits)
  then have reads: "read_nat (four_digits y) = Some y" "read_nat (two_digits m) = Some m"
    "read_nat (two_digits d) = Some d" "read_nat (two_digits hh) = Some hh"
    "read_nat (two_digits mm) = Some mm" "read_nat (two_digits ss) = Some ss"
    using assms(2,4,7,8,9) by (simp_all add: read_two_digits read_four_digits)
  have valid: "valid_datetime \<lparr>year = y, month = m, day = d, hour = hh, minute = mm, second = ss,
                  microsecond = us, utcoffset = off\<rparr>"
    using assms by (simp add: valid_datetime_def)
  have "iso8601_parse (four_digits y @ ''-'' @ two_digits m @ ''-'' @ two_digits d @ ''T''
       @ two_digits hh @ '':'' @ two_digits mm @ '':'' @ two_digits ss @ tail)
       = Some \<lparr>year = y, month = m, day = d, hour = hh, minute = mm, second = ss,
                  microsecond = us, utcoffset = off\<rparr>"
    by (subst iso8601_parse_fields) (simp_all add: reads assms(10,12) valid)
  then show ?thesis by (simp add: date_time_text_def)
qed

lemma digit_char_0: "digit_char 0 = CHR ''0''"
  by code_simp


lemma rfc822_format_text:
  assumes "valid_datetime \<lparr>year = y, month = m, day = d, hour = hh, minute = mm, second = ss,
                  microsecond = us, utcoffset = off\<rparr>"
  shows "rfc822_format \<lparr>year = y, month = m, day = d, hour = hh, minute = mm, second = ss,
                  microsecond = us, utcoffset = off\<rparr>
         = Some (day_name (weekday y m d) @ '', '' @ two_digits d @ '' '' @ month_name m @ '' ''
              @ four_digits y @ '' '' @ two_digits hh @ '':'' @ two_digits mm @ '':'' @ two_digits ss
              @ '' '' @ zone_text off)"
  using assms by (simp add: rfc822_format_def)


lemma model_dates_utc:
  assumes "1 \<le> y" "y \<le> 9999" "1 \<le> m" "m \<le> 12" "1 \<le> d" "d \<le> days_in_month y m"
    and "hh \<le> 23" "mm \<le> 59" "ss \<le> 59"
  shows "Option.bind (iso8601_parse (date_time_text y m d hh mm ss @ ''Z'')) rfc822_format
         = Some (rfc822_text y m d hh mm ss ''+0000'')"
proof -
  have f: "parse_fraction ''Z'' = Some (0, ''Z'')"
    by (simp add: parse_fraction_def)
  have z: "parse_offset ''Z'' = Some (Some 0)"
    by (simp add: parse_offset_def)
  have parse: "iso8601_parse (date_time_text y m d hh mm ss @ ''Z'')
         = Some \<lparr>year = y, month = m, day = d, hour = hh, minute = mm, second = ss,
                  microsecond = 0, utcoffset = Some 0\<rparr>"
    using assms f z by (intro iso8601_parse_tail) simp_all
  have valid: "valid_datetime \<lparr>year = y, month = m, day = d, hour = hh, minute = mm, second = ss,
                  microsecond = 0, utcoffset = Some 0\<rparr>"
    using assms by (simp add: valid_datetime_def)
  have "zone_text (Some 0) = ''+0000''"
    by (simp add: zone_text_def two_digits_def digit_char_0)
  with parse rfc822_format_text [OF valid] show ?thesis
    by (simp add: rfc822_text_def)
qed

section \<open>Values on the sample inputs\<close>

lemma sample_weekdays: "weekday 2017 6 28 = 2" "weekday 2020 1 1 = 2"
  by (simp_all add: weekday_def days_before_year_def days_before_month_def is_leap_def)

lemma sample_texts:
  "date_time_text 2017 6 28 8 15 0 @ ''.'' @ ''001'' @ CHR ''-'' # two_digits 7 @ '':'' @ two_digits 0
     = ''2017-06-28T08:15:00.001-07:00''"
  "rfc822_text 2017 6 28 8 15 0 (CHR ''-'' # two_digits 7 @ two_digits 0)
     = ''Wed, 28 Jun 2017 08:15:00 -0700''"
  "date_time_text 2020 1 1 0 0 0 @ ''Z'' = ''2020-01-01T00:00:00Z''"
  "rfc822_text 2020 1 1 0 0 0 ''+0000'' = ''Wed, 01 Jan 2020 00:00:00 +0000''"
  unfolding rfc822_text_def sample_weekdays by code_simp+

lemma not_a_date: "iso8601_parse ''not-a-date'' = None"
  by code_simp

lemma sample_utc_date:
  "Option.bind (iso8601_parse ''2020-01-01T00:00:00Z'') rfc822_format
      = Some ''Wed, 01 Jan 2020 00:00:00 +0000''"
proof -
  have "Option.bind (iso8601_parse (date_time_text 2020 1 1 0 0 0 @ ''Z'')) rfc822_format
      = Some (rfc822_text 2020 1 1 0 0 0 ''+0000'')"
    by (rule model_dates_utc) (simp_all add: days_in_month_def)
  then show ?thesis
    unfolding sample_texts .
qed

lemma sample_strips:
  "strip '' '' = []"
  "strip ''2020-01-01T00:00:00Z'' = ''2020-01-01T00:00:00Z''"
  "strip ''2017-06-28T08:15:00.001-07:00'' = ''2017-06-28T08:15:00.001-07:00''"
  "strip ''not-a-date'' = ''not-a-date''"
  by (simp_all add: strip_def isspace_def)

lemma sample_entry_strings:
  "element_string (find_tag ''published'' [] blank_published_entry) = Some '' ''"
  "element_string (find_tag ''updated'' [] blank_published_entry) = Some ''2020-01-01T00:00:00Z''"
  "element_string (find_tag ''published'' [] updated_only_entry) = None"
  "element_string (find_tag ''updated'' [] updated_only_entry) = Some ''2020-01-01T00:00:00Z''"
  "element_string (find_tag ''published'' [] published_entry) = Some ''2017-06-28T08:15:00.001-07:00''"
  "element_string (find_tag ''published'' [] bad_date_entry) = Some ''not-a-date''"
  "element_string (find_tag ''published'' [] (Tag ''entry'' [] [])) = None"
  "element_string (find_tag ''updated'' [] (Tag ''entry'' [] [])) = None"
  by (simp_all add: blank_published_entry_def updated_only_entry_def published_entry_def
      bad_date_entry_def element_string_def find_tag_def find_all_def)

lemma sample_cdata:
  "cdata_str ''<p>x</p>'' = ''<![CDATA[<p>x</p>]]>''"
  "cdata_str ''hello'' = ''<![CDATA[hello]]>''"
  by code_simp+

lemma sample_get_texts:
  "get_text (Tag ''title'' [] [NavigableString PlainText '' One '']) = ''One''"
  "get_text (Tag ''content'' [] [Tag ''div'' [] [NavigableString PlainText ''hello'']]) = ''hello''"
  "get_text (Tag ''content'' []
       [NavigableString PlainText ''Hello '', Tag ''b'' [] [NavigableString PlainText ''world'']])
     = ''Helloworld''"
  by (simp_all add: get_text_def stripped_strings_def strip_def isspace_def)

section \<open>Properties of the CDATA escape\<close>











section \<open>Entry count and order\<close>

text \<open>
  C1. The RSS tree holds exactly as many \<open>item\<close> tags as the Atom tree holds
  \<open>entry\<close> tags; the items are, in document order, the conversions of the entries
  in document order; the counter returned equals that number, and a run that gets through
  reports it in its closing message.
\<close>

theorem entry_count_preserved:
  "find_all ''item'' [] (fst (build_rss L atom_soup))
     = map (convert_entry L) (find_all ''entry'' [] atom_soup)
   \<and> length (find_all ''item'' [] (fst (build_rss L atom_soup))) = count_tags ''entry'' atom_soup
   \<and> snd (build_rss L atom_soup) = count_tags ''entry'' atom_soup
   \<and> (truthy (input_file_path a) \<and> truthy (output_file_path a)
        \<and> read_text io (the (input_file_path a)) = Inr atom_data
        \<and> BeautifulSoup io atom_data = Inr atom_soup
        \<and> write_text io (the (output_file_path a)) (prettify io (fst (build_rss L atom_soup))) = None
      \<longrightarrow> fst (snd (process_feed L io a))
            = ShowInfo ''Done'' (''Successfully created RSS 2.0 feed with ''
                @ str_nat (count_tags ''entry'' atom_soup) @ '' <item> entries.'')
          \<and> snd (snd (process_feed L io a))
            = Some (the (output_file_path a), prettify io (fst (build_rss L atom_soup))))"
proof -
  have items: "find_all ''item'' [] (fst (build_rss L atom_soup))
     = map (convert_entry L) (find_all ''entry'' [] atom_soup)"
    by (rule find_all_items)
  have n: "snd (build_rss L atom_soup) = count_tags ''entry'' atom_soup"
    by (simp add: build_rss_eq length_find_all_count)
  have len: "length (find_all ''item'' [] (fst (build_rss L atom_soup))) = count_tags ''entry'' atom_soup"
    by (simp add: items length_find_all_count)
  have run: "fst (snd (process_feed L io a))
            = ShowInfo ''Done'' (''Successfully created RSS 2.0 feed with ''
                @ str_nat (count_tags ''entry'' atom_soup) @ '' <item> entries.'')
          \<and> snd (snd (process_feed L io a))
            = Some (the (output_file_path a), prettify io (fst (build_rss L atom_soup)))"
    if "truthy (input_file_path a)" "truthy (output_file_path a)"
       "read_text io (the (input_file_path a)) = Inr atom_data"
       "BeautifulSoup io atom_data = Inr atom_soup"
       "write_text io (the (output_file_path a)) (prettify io (fst (build_rss L atom_soup))) = None"
    using that n by (simp add: process_feed_def Let_def split_beta)
  from items n len run show ?thesis by blast
qed

theorem entry_count_preserved_witness:
  "length (find_all ''item'' [] (fst (build_rss model_dates sample_feed))) = 2
   \<and> snd (build_rss model_dates sample_feed) = 2
   \<and> fst (snd (process_feed model_dates sample_io sample_app))
       = ShowInfo ''Done'' ''Successfully created RSS 2.0 feed with 2 <item> entries.''"
proof -
  have c: "count_tags ''entry'' sample_feed = 2"
    by (simp add: sample_feed_def)
  have s: "str_nat 2 = ''2''"
    by code_simp
  have h: "truthy (input_file_path sample_app) \<and> truthy (output_file_path sample_app)
        \<and> read_text sample_io (the (input_file_path sample_app)) = Inr ''<feed/>''
        \<and> BeautifulSoup sample_io ''<feed/>'' = Inr sample_feed
        \<and> write_text sample_io (the (output_file_path sample_app))
              (prettify sample_io (fst (build_rss model_dates sample_feed))) = None"
    by (simp add: sample_io_def sample_app_def)
  from entry_count_preserved [of model_dates sample_feed sample_app sample_io "''<feed/>''"] h
  have "length (find_all ''item'' [] (fst (build_rss model_dates sample_feed)))
          = count_tags ''entry'' sample_feed
        \<and> snd (build_rss model_dates sample_feed) = count_tags ''entry'' sample_feed
        \<and> fst (snd (process_feed model_dates sample_io sample_app))
          = ShowInfo ''Done'' (''Successfully created RSS 2.0 feed with ''
              @ str_nat (count_tags ''entry'' sample_feed) @ '' <item> entries.'')"
    by blast
  then show ?thesis unfolding c s by simp
qed

section \<open>Rejected input\<close>



section \<open>Channel metadata\<close>




section \<open>Publication date\<close>



section \<open>Choice of the date field\<close>

text \<open>
  C6 as stated fails: a \<open>published\<close> string of white space is chosen, trims to the
  empty string, and the entry gets no \<open>pubDate\<close> although its \<open>updated\<close> string
  is a date (the same \<open>updated\<close> alone does give a \<open>pubDate\<close>).
\<close>

theorem date_field_choice_counterexample:
  "element_string (find_tag ''published'' [] blank_published_entry) = Some '' ''
   \<and> strip '' '' = []
   \<and> element_string (find_tag ''updated'' [] blank_published_entry) = Some ''2020-01-01T00:00:00Z''
   \<and> date_str blank_published_entry = Some []
   \<and> children_named ''pubDate'' (convert_entry model_dates blank_published_entry) = []
   \<and> children_named ''pubDate'' (convert_entry model_dates updated_only_entry)
       = [new_text_tag ''pubDate'' ''Wed, 01 Jan 2020 00:00:00 +0000'']"
proof -
  have d: "date_str blank_published_entry = Some []"
    by (simp add: date_str_cases sample_entry_strings sample_strips)
  have b: "children_named ''pubDate'' (convert_entry model_dates blank_published_entry) = []"
    by (simp add: item_children item_pubdate_bind d)
  have du: "date_str updated_only_entry = Some ''2020-01-01T00:00:00Z''"
    by (simp add: date_str_cases sample_entry_strings sample_strips)
  have "children_named ''pubDate'' (convert_entry model_dates updated_only_entry)
       = [new_text_tag ''pubDate'' ''Wed, 01 Jan 2020 00:00:00 +0000'']"
    using sample_utc_date by (simp add: item_children item_pubdate_bind du model_dates_def)
  with d b show ?thesis
    by (simp add: sample_entry_strings sample_strips)
qed

text \<open>
  C6, as amended. The date string is the string of the first \<open>published\<close> tag, trimmed,
  when that string is present and not empty before trimming; otherwise the string of the
  first \<open>updated\<close> tag, trimmed, when present and not empty; otherwise there is none.
  Without a date string, or with an empty one, the item has no \<open>pubDate\<close>; with a
  date string that the reader and formatter accept, it has one with the formatted text.
\<close>

theorem date_field_choice:
  "(\<forall>p. element_string (find_tag ''published'' [] e) = Some p \<and> p \<noteq> [] \<longrightarrow>
       date_str e = Some (strip p))
   \<and> (\<forall>u. \<not> truthy (element_string (find_tag ''published'' [] e))
         \<and> element_string (find_tag ''updated'' [] e) = Some u \<and> u \<noteq> [] \<longrightarrow>
       date_str e = Some (strip u))
   \<and> (\<not> truthy (element_string (find_tag ''published'' [] e))
         \<and> \<not> truthy (element_string (find_tag ''updated'' [] e)) \<longrightarrow>
       date_str e = None)
   \<and> (\<not> truthy (date_str e) \<longrightarrow> children_named ''pubDate'' (convert_entry L e) = [])
   \<and> (\<forall>d r. date_str e = Some d \<and> d \<noteq> []
         \<and> Option.bind (isoparse L d) (format_datetime L) = Some r \<longrightarrow>
       children_named ''pubDate'' (convert_entry L e) = [new_text_tag ''pubDate'' r])"
proof -
  have "\<not> truthy (date_str e) \<Longrightarrow> item_pubdate L e = []"
    by (cases "date_str e") (simp_all add: item_pubdate_bind)
  then show ?thesis
    by (auto simp: date_str_cases item_children item_pubdate_bind)
qed

theorem date_field_choice_witness:
  "date_str published_entry = Some ''2017-06-28T08:15:00.001-07:00''
   \<and> date_str updated_only_entry = Some ''2020-01-01T00:00:00Z''
   \<and> date_str (Tag ''entry'' [] []) = None
   \<and> children_named ''pubDate'' (convert_entry model_dates (Tag ''entry'' [] [])) = []
   \<and> children_named ''pubDate'' (convert_entry model_dates updated_only_entry)
       = [new_text_tag ''pubDate'' ''Wed, 01 Jan 2020 00:00:00 +0000'']"
proof -
  note pub = date_field_choice [of published_entry model_dates]
  note upd = date_field_choice [of updated_only_entry model_dates]
  note non = date_field_choice [of "Tag ''entry'' [] []" model_dates]
  have ne: "''2017-06-28T08:15:00.001-07:00'' \<noteq> []" "''2020-01-01T00:00:00Z'' \<noteq> []"
    by simp_all
  from pub sample_entry_strings(5) ne(1)
  have 1: "date_str published_entry = Some (strip ''2017-06-28T08:15:00.001-07:00'')"
    by blast
  have "\<not> truthy (element_string (find_tag ''published'' [] updated_only_entry))"
    by (simp add: sample_entry_strings)
  with upd sample_entry_strings(4) ne(2)
  have 2: "date_str updated_only_entry = Some (strip ''2020-01-01T00:00:00Z'')"
    by blast
  have "\<not> truthy (element_string (find_tag ''published'' [] (Tag ''entry'' [] [])))"
    "\<not> truthy (element_string (find_tag ''updated'' [] (Tag ''entry'' [] [])))"
    by (simp_all add: sample_entry_strings)
  with non have 3: "date_str (Tag ''entry'' [] []) = None"
    by blast
  then have "\<not> truthy (date_str (Tag ''entry'' [] []))"
    by simp
  with non have 4: "children_named ''pubDate'' (convert_entry model_dates (Tag ''entry'' [] [])) = []"
    by blast
  have "Option.bind (isoparse model_dates ''2020-01-01T00:00:00Z'') (format_datetime model_dates)
      = Some ''Wed, 01 Jan 2020 00:00:00 +0000''"
    using sample_utc_date by (simp add: model_dates_def)
  with upd 2 ne(2) have 5: "children_named ''pubDate'' (convert_entry model_dates updated_only_entry)
       = [new_text_tag ''pubDate'' ''Wed, 01 Jan 2020 00:00:00 +0000'']"
    unfolding sample_strips by blast
  from 1 2 3 4 5 show ?thesis
    unfolding sample_strips by blast
qed

section \<open>Unreadable dates\<close>

text \<open>
  C7. An entry whose date string is not empty and is refused by the date reader yields an
  item without \<open>pubDate\<close>; its other children are what they are for any entry, the
  item is in the output, the items are still the conversions of all entries, the counter
  is the number of entries, and a run that gets through reports success with that number.
\<close>

theorem unparseable_date_tolerated:
  assumes "e \<in> set (find_all ''entry'' [] atom_soup)"
    and "date_str e = Some d" "d \<noteq> []" "isoparse L d = None"
    and "truthy (input_file_path a)" "truthy (output_file_path a)"
    and "read_text io (the (input_file_path a)) = Inr atom_data"
    and "BeautifulSoup io atom_data = Inr atom_soup"
    and "write_text io (the (output_file_path a)) (prettify io (fst (build_rss L atom_soup))) = None"
  shows "children_named ''pubDate'' (convert_entry L e) = []
     \<and> convert_entry L e \<in> set (find_all ''item'' [] (fst (build_rss L atom_soup)))
     \<and> find_all ''item'' [] (fst (build_rss L atom_soup))
         = map (convert_entry L) (find_all ''entry'' [] atom_soup)
     \<and> children_named ''title'' (convert_entry L e) = item_title e
     \<and> children_named ''link'' (convert_entry L e) = item_link e
     \<and> children_named ''content:encoded'' (convert_entry L e) = item_content e
     \<and> snd (build_rss L atom_soup) = count_tags ''entry'' atom_soup
     \<and> fst (snd (process_feed L io a))
         = ShowInfo ''Done'' (''Successfully created RSS 2.0 feed with ''
             @ str_nat (count_tags ''entry'' atom_soup) @ '' <item> entries.'')"
proof -
  have none: "children_named ''pubDate'' (convert_entry L e) = []"
    using assms(2,3,4) by (simp add: item_children item_pubdate_bind)
  have items: "find_all ''item'' [] (fst (build_rss L atom_soup))
         = map (convert_entry L) (find_all ''entry'' [] atom_soup)"
    by (rule find_all_items)
  with assms(1) have mem: "convert_entry L e \<in> set (find_all ''item'' [] (fst (build_rss L atom_soup)))"
    by simp
  have n: "snd (build_rss L atom_soup) = count_tags ''entry'' atom_soup"
    by (simp add: build_rss_eq length_find_all_count)
  have run: "fst (snd (process_feed L io a))
         = ShowInfo ''Done'' (''Successfully created RSS 2.0 feed with ''
             @ str_nat (count_tags ''entry'' atom_soup) @ '' <item> entries.'')"
    using assms(5-9) n by (simp add: process_feed_def Let_def split_beta)
  from none mem items n run show ?thesis
    by (simp add: item_children)
qed

theorem unparseable_date_tolerated_witness:
  "children_named ''pubDate'' (convert_entry model_dates bad_date_entry) = []
   \<and> convert_entry model_dates bad_date_entry
       \<in> set (find_all ''item'' [] (fst (build_rss model_dates mixed_feed)))
   \<and> snd (build_rss model_dates mixed_feed) = 2
   \<and> fst (snd (process_feed model_dates mixed_io sample_app))
       = ShowInfo ''Done'' ''Successfully created RSS 2.0 feed with 2 <item> entries.''"
proof -
  have e: "bad_date_entry \<in> set (find_all ''entry'' [] mixed_feed)"
    by (simp add: mixed_feed_def bad_date_entry_def published_entry_def find_all_def)
  have d: "date_str bad_date_entry = Some ''not-a-date''"
    by (simp add: date_str_cases sample_entry_strings sample_strips)
  have p: "isoparse model_dates ''not-a-date'' = None"
    by (simp add: model_dates_def not_a_date)
  have c: "count_tags ''entry'' mixed_feed = 2"
    by (simp add: mixed_feed_def bad_date_entry_def published_entry_def)
  have s: "str_nat 2 = ''2''"
    by code_simp
  have io: "truthy (input_file_path sample_app)" "truthy (output_file_path sample_app)"
    "read_text mixed_io (the (input_file_path sample_app)) = Inr ''<feed/>''"
    "BeautifulSoup mixed_io ''<feed/>'' = Inr mixed_feed"
    "write_text mixed_io (the (output_file_path sample_app))
       (prettify mixed_io (fst (build_rss model_dates mixed_feed))) = None"
    by (simp_all add: mixed_io_def sample_app_def)
  have ne: "''not-a-date'' \<noteq> []"
    by simp
  from unparseable_date_tolerated [OF e d ne p io]
  have "children_named ''pubDate'' (convert_entry model_dates bad_date_entry) = []
     \<and> convert_entry model_dates bad_date_entry
         \<in> set (find_all ''item'' [] (fst (build_rss model_dates mixed_feed)))
     \<and> snd (build_rss model_dates mixed_feed) = count_tags ''entry'' mixed_feed
     \<and> fst (snd (process_feed model_dates mixed_io sample_app))
         = ShowInfo ''Done'' (''Successfully created RSS 2.0 feed with ''
             @ str_nat (count_tags ''entry'' mixed_feed) @ '' <item> entries.'')"
    by blast
  then show ?thesis
    unfolding c s by simp
qed

section \<open>Optional item fields\<close>

text \<open>
  C8 as stated fails: an entry whose \<open>title\<close> tag is present but empty yields an item
  with an empty \<open>title\<close>, not an item without one.
\<close>

theorem optional_item_fields_counterexample:
  "find_tag ''title'' [] empty_title_entry = Some (Tag ''title'' [] [])
   \<and> get_text (Tag ''title'' [] []) = []
   \<and> children_named ''title'' (convert_entry model_dates empty_title_entry)
       = [Tag ''title'' [] [NavigableString PlainText []]]"
  by (simp add: item_children item_title_def empty_title_entry_def find_tag_def find_all_def
      get_text_def stripped_strings_def new_text_tag_def)

text \<open>
  C8, as amended. The item has a \<open>title\<close> exactly when the entry has a \<open>title\<close> tag
  below it (its text may be empty); a \<open>link\<close> exactly when the first alternate link
  below the entry has an \<open>href\<close> (which may be empty); a \<open>content:encoded\<close> exactly
  when the first \<open>content\<close> tag has a non-empty \<open>.string\<close>. An item is produced in
  every case, and an entry with none of these and no date string yields an empty item.
\<close>

theorem optional_item_fields:
  "(children_named ''title'' (convert_entry L e) \<noteq> [] \<longleftrightarrow> find_all ''title'' [] e \<noteq> [])
   \<and> (\<forall>t ts. find_all ''title'' [] e = t # ts \<longrightarrow>
        children_named ''title'' (convert_entry L e) = [new_text_tag ''title'' (get_text t)])
   \<and> (children_named ''link'' (convert_entry L e) \<noteq> [] \<longleftrightarrow>
        (\<exists>l ls. find_all ''link'' [(''rel'', ''alternate'')] e = l # ls \<and> has_attr l ''href''))
   \<and> (\<forall>l ls h. find_all ''link'' [(''rel'', ''alternate'')] e = l # ls \<and> get_attr l ''href'' = Some h \<longrightarrow>
        children_named ''link'' (convert_entry L e) = [new_text_tag ''link'' h])
   \<and> (children_named ''content:encoded'' (convert_entry L e) \<noteq> [] \<longleftrightarrow>
        (\<exists>c cs s. find_all ''content'' [] e = c # cs \<and> tag_string c = Some s \<and> s \<noteq> []))
   \<and> (\<forall>c cs s. find_all ''content'' [] e = c # cs \<and> tag_string c = Some s \<and> s \<noteq> [] \<longrightarrow>
        children_named ''content:encoded'' (convert_entry L e)
          = [new_text_tag ''content:encoded'' (cdata_str s)])
   \<and> (\<exists>kids. convert_entry L e = Tag ''item'' [] kids)
   \<and> (find_all ''title'' [] e = [] \<and> find_all ''link'' [(''rel'', ''alternate'')] e = []
        \<and> find_all ''content'' [] e = [] \<and> date_str e = None \<longrightarrow>
        convert_entry L e = Tag ''item'' [] [])"
proof -
  have attr: "has_attr l ''href'' \<longleftrightarrow> get_attr l ''href'' \<noteq> None" for l
    by (cases l) simp_all
  have title: "item_title e = (case find_all ''title'' [] e of [] \<Rightarrow> []
      | t # ts \<Rightarrow> [new_text_tag ''title'' (get_text t)])"
    by (simp add: item_title_def find_tag_def split: list.splits)
  have link: "item_link e = (case find_all ''link'' [(''rel'', ''alternate'')] e of [] \<Rightarrow> []
      | l # ls \<Rightarrow> (case get_attr l ''href'' of None \<Rightarrow> [] | Some h \<Rightarrow> [new_text_tag ''link'' h]))"
    by (simp add: item_link_def find_tag_def split: list.splits)
  have content: "item_content e = (case find_all ''content'' [] e of [] \<Rightarrow> []
      | c # cs \<Rightarrow> (case tag_string c of None \<Rightarrow> []
          | Some s \<Rightarrow> if s = [] then [] else [new_text_tag ''content:encoded'' (cdata_str s)]))"
    by (simp add: item_content_def element_string_def find_tag_def split: list.splits)
  have pub: "date_str e = None \<Longrightarrow> item_pubdate L e = []"
    by (simp add: item_pubdate_bind)
  show ?thesis
    unfolding item_children
    apply (intro conjI)
           apply (simp add: title split: list.splits)
          apply (simp add: title)
         apply (auto simp: link attr split: list.splits option.splits)[1]
        apply (simp add: link)
       apply (auto simp: content split: list.splits option.splits)[1]
      apply (simp add: content)
     apply (simp add: convert_entry_def)
    apply (simp add: convert_entry_def title link content pub)
    done
qed

theorem optional_item_fields_witness:
  "children_named ''title'' (convert_entry model_dates full_entry) = [new_text_tag ''title'' ''One'']
   \<and> children_named ''link'' (convert_entry model_dates full_entry)
       = [new_text_tag ''link'' ''http://a.example/1'']
   \<and> children_named ''content:encoded'' (convert_entry model_dates full_entry)
       = [new_text_tag ''content:encoded'' ''<![CDATA[<p>x</p>]]>'']
   \<and> convert_entry model_dates (Tag ''entry'' [] []) = Tag ''item'' [] []"
proof -
  note full = optional_item_fields [of model_dates full_entry]
  note bare = optional_item_fields [of model_dates "Tag ''entry'' [] []"]
  have t: "find_all ''title'' [] full_entry = [Tag ''title'' [] [NavigableString PlainText '' One '']]"
    by (simp add: full_entry_def find_all_def)
  have l: "find_all ''link'' [(''rel'', ''alternate'')] full_entry
      = [Tag ''link'' [(''rel'', ''alternate''), (''href'', ''http://a.example/1'')] []]"
    "get_attr (Tag ''link'' [(''rel'', ''alternate''), (''href'', ''http://a.example/1'')] []) ''href''
      = Some ''http://a.example/1''"
    by (simp_all add: full_entry_def find_all_def)
  have c: "find_all ''content'' [] full_entry = [Tag ''content'' [] [NavigableString PlainText ''<p>x</p>'']]"
    "tag_string (Tag ''content'' [] [NavigableString PlainText ''<p>x</p>'']) = Some ''<p>x</p>''"
    "''<p>x</p>'' \<noteq> []"
    by (simp_all add: full_entry_def find_all_def)
  have n: "find_all ''title'' [] (Tag ''entry'' [] []) = []"
    "find_all ''link'' [(''rel'', ''alternate'')] (Tag ''entry'' [] []) = []"
    "find_all ''content'' [] (Tag ''entry'' [] []) = []"
    "date_str (Tag ''entry'' [] []) = None"
    by (simp_all add: find_all_def date_str_cases sample_entry_strings)
  from full t have 1: "children_named ''title'' (convert_entry model_dates full_entry)
      = [new_text_tag ''title'' (get_text (Tag ''title'' [] [NavigableString PlainText '' One '']))]"
    by blast
  from full l have 2: "children_named ''link'' (convert_entry model_dates full_entry)
       = [new_text_tag ''link'' ''http://a.example/1'']"
    by blast
  from full c have 3: "children_named ''content:encoded'' (convert_entry model_dates full_entry)
       = [new_text_tag ''content:encoded'' (cdata_str ''<p>x</p>'')]"
    by blast
  from bare n have 4: "convert_entry model_dates (Tag ''entry'' [] []) = Tag ''item'' [] []"
    by blast
  from 1 2 3 4 show ?thesis
    unfolding sample_cdata sample_get_texts by blast
qed

section \<open>Content with markup\<close>

text \<open>
  C9 as stated fails: a \<open>content\<close> tag whose only child is an element wrapping one
  string is not a single text node, yet the item gets a \<open>content:encoded\<close>.
\<close>

theorem content_string_rule_counterexample:
  "find_tag ''content'' [] wrapped_content_entry
     = Some (Tag ''content'' [] [Tag ''div'' [] [NavigableString PlainText ''hello'']])
   \<and> contents (Tag ''content'' [] [Tag ''div'' [] [NavigableString PlainText ''hello'']])
     = [Tag ''div'' [] [NavigableString PlainText ''hello'']]
   \<and> get_text (Tag ''content'' [] [Tag ''div'' [] [NavigableString PlainText ''hello'']]) = ''hello''
   \<and> children_named ''content:encoded'' (convert_entry model_dates wrapped_content_entry)
     = [new_text_tag ''content:encoded'' ''<![CDATA[hello]]>'']"
proof -
  have f: "find_tag ''content'' [] wrapped_content_entry
     = Some (Tag ''content'' [] [Tag ''div'' [] [NavigableString PlainText ''hello'']])"
    by (simp add: wrapped_content_entry_def find_tag_def find_all_def)
  then have "item_content wrapped_content_entry = [new_text_tag ''content:encoded'' (cdata_str ''hello'')]"
    by (simp add: item_content_def element_string_def)
  with f show ?thesis
    by (simp add: item_children sample_cdata sample_get_texts)
qed

text \<open>
  C9, as amended. For the first \<open>content\<close> tag of an entry: with no child or with
  several children, the item has no \<open>content:encoded\<close>, whatever the concatenated text;
  with a single child that is a non-empty string, or an element holding just one non-empty
  string, the item has a \<open>content:encoded\<close> wrapping that string; in general the
  element is present exactly when the \<open>.string\<close> of the tag is present and not empty.
\<close>

theorem content_string_rule:
  "\<forall>c cs. find_all ''content'' [] e = c # cs \<longrightarrow>
     (length (contents c) \<noteq> 1 \<longrightarrow> children_named ''content:encoded'' (convert_entry L e) = [])
     \<and> (\<forall>n a k s. contents c = [Tag n a [NavigableString k s]] \<and> s \<noteq> [] \<longrightarrow>
          children_named ''content:encoded'' (convert_entry L e)
            = [new_text_tag ''content:encoded'' (cdata_str s)])
     \<and> (\<forall>k s. contents c = [NavigableString k s] \<and> s \<noteq> [] \<longrightarrow>
          children_named ''content:encoded'' (convert_entry L e)
            = [new_text_tag ''content:encoded'' (cdata_str s)])
     \<and> (children_named ''content:encoded'' (convert_entry L e) \<noteq> [] \<longleftrightarrow> truthy (tag_string c))"
proof (intro allI impI)
  fix c cs
  assume found: "find_all ''content'' [] e = c # cs"
  then have m: "matches ''content'' [] c"
    by (metis filter_eq_ConsD find_all_def)
  then obtain n a kids where c: "c = Tag n a kids"
    by (cases c) simp_all
  have ic: "item_content e = (case tag_string c of None \<Rightarrow> []
      | Some s \<Rightarrow> if s = [] then [] else [new_text_tag ''content:encoded'' (cdata_str s)])"
    using found by (simp add: item_content_def element_string_def find_tag_def)
  have none: "tag_string c = None" if "length (contents c) \<noteq> 1"
  proof (cases kids)
    case Nil
    then show ?thesis by (simp add: c)
  next
    case (Cons x xs)
    with that c obtain y ys where "xs = y # ys"
      by (cases xs) simp_all
    with Cons show ?thesis by (simp add: c)
  qed
  show "(length (contents c) \<noteq> 1 \<longrightarrow> children_named ''content:encoded'' (convert_entry L e) = [])
     \<and> (\<forall>n a k s. contents c = [Tag n a [NavigableString k s]] \<and> s \<noteq> [] \<longrightarrow>
          children_named ''content:encoded'' (convert_entry L e)
            = [new_text_tag ''content:encoded'' (cdata_str s)])
     \<and> (\<forall>k s. contents c = [NavigableString k s] \<and> s \<noteq> [] \<longrightarrow>
          children_named ''content:encoded'' (convert_entry L e)
            = [new_text_tag ''content:encoded'' (cdata_str s)])
     \<and> (children_named ''content:encoded'' (convert_entry L e) \<noteq> [] \<longleftrightarrow> truthy (tag_string c))"
    using none unfolding item_children ic c
    by (auto split: option.splits)
qed

theorem content_string_rule_witness:
  "get_text (Tag ''content'' []
       [NavigableString PlainText ''Hello '', Tag ''b'' [] [NavigableString PlainText ''world'']])
     = ''Helloworld''
   \<and> children_named ''content:encoded'' (convert_entry model_dates mixed_content_entry) = []
   \<and> children_named ''content:encoded'' (convert_entry model_dates wrapped_content_entry)
       = [new_text_tag ''content:encoded'' ''<![CDATA[hello]]>'']
   \<and> children_named ''content:encoded'' (convert_entry model_dates full_entry)
       = [new_text_tag ''content:encoded'' ''<![CDATA[<p>x</p>]]>'']"
proof -
  have m: "find_all ''content'' [] mixed_content_entry = [Tag ''content'' []
       [NavigableString PlainText ''Hello '', Tag ''b'' [] [NavigableString PlainText ''world'']]]"
    "length (contents (Tag ''content'' []
       [NavigableString PlainText ''Hello '', Tag ''b'' [] [NavigableString PlainText ''world'']])) \<noteq> 1"
    by (simp_all add: mixed_content_entry_def find_all_def)
  have w: "find_all ''content'' [] wrapped_content_entry
      = [Tag ''content'' [] [Tag ''div'' [] [NavigableString PlainText ''hello'']]]"
    "contents (Tag ''content'' [] [Tag ''div'' [] [NavigableString PlainText ''hello'']])
      = [Tag ''div'' [] [NavigableString PlainText ''hello'']]"
    "''hello'' \<noteq> []"
    by (simp_all add: wrapped_content_entry_def find_all_def)
  have f: "find_all ''content'' [] full_entry = [Tag ''content'' [] [NavigableString PlainText ''<p>x</p>'']]"
    "contents (Tag ''content'' [] [NavigableString PlainText ''<p>x</p>''])
      = [NavigableString PlainText ''<p>x</p>'']"
    "''<p>x</p>'' \<noteq> []"
    by (simp_all add: full_entry_def find_all_def)
  from content_string_rule [of mixed_content_entry model_dates] m
  have 1: "children_named ''content:encoded'' (convert_entry model_dates mixed_content_entry) = []"
    by blast
  from content_string_rule [of wrapped_content_entry model_dates] w
  have 2: "children_named ''content:encoded'' (convert_entry model_dates wrapped_content_entry)
       = [new_text_tag ''content:encoded'' (cdata_str ''hello'')]"
    by blast
  from content_string_rule [of full_entry model_dates] f
  have 3: "children_named ''content:encoded'' (convert_entry model_dates full_entry)
       = [new_text_tag ''content:encoded'' (cdata_str ''<p>x</p>'')]"
    by blast
  from 1 2 3 sample_get_texts(3) show ?thesis
    unfolding sample_cdata by blast
qed

section \<open>Encoded content\<close>



section \<open>Lookups inside an entry\<close>

text \<open>
  C10. A lookup by name (and wanted attributes) below a node returns a tag exactly when
  that tag sits at the least position, in document order, among all positions of any
  depth below the node that hold a matching tag, and returns nothing exactly when no
  position below the node holds one. The title, the alternate link, the content and the
  two date fields of an item are all taken from such lookups below the entry.
\<close>

theorem lookup_any_depth:
  "(find_tag nm want e = Some t \<longleftrightarrow>
      (\<exists>p. p \<noteq> [] \<and> subtree e p = Some t \<and> matches nm want t
         \<and> (\<forall>q t'. q \<noteq> [] \<and> subtree e q = Some t' \<and> matches nm want t' \<longrightarrow> p \<le> q)))
   \<and> (find_tag nm want e = None \<longleftrightarrow>
      (\<forall>q t'. q \<noteq> [] \<and> subtree e q = Some t' \<longrightarrow> \<not> matches nm want t'))
   \<and> children_named ''title'' (convert_entry L e)
       = (case find_tag ''title'' [] e of
            None \<Rightarrow> []
          | Some entry_title \<Rightarrow> [new_text_tag ''title'' (get_text entry_title)])
   \<and> children_named ''link'' (convert_entry L e)
       = (case find_tag ''link'' [(''rel'', ''alternate'')] e of
            None \<Rightarrow> []
          | Some alt_link \<Rightarrow>
              (case get_attr alt_link ''href'' of
                 None \<Rightarrow> []
               | Some href \<Rightarrow> [new_text_tag ''link'' href]))
   \<and> children_named ''content:encoded'' (convert_entry L e)
       = (case element_string (find_tag ''content'' [] e) of
            None \<Rightarrow> []
          | Some raw_html \<Rightarrow>
              if raw_html = [] then [] else [new_text_tag ''content:encoded'' (cdata_str raw_html)])
   \<and> date_str e
       = (if truthy (element_string (find_tag ''published'' [] e))
            then map_option strip (element_string (find_tag ''published'' [] e))
          else if truthy (element_string (find_tag ''updated'' [] e))
            then map_option strip (element_string (find_tag ''updated'' [] e))
          else None)"
proof -
  let ?P = "matches nm want"
  let ?first = "\<lambda>p. p \<noteq> [] \<and> subtree e p = Some t \<and> ?P t
         \<and> (\<forall>q t'. q \<noteq> [] \<and> subtree e q = Some t' \<and> ?P t' \<longrightarrow> p \<le> q)"
  have none: "find_tag nm want e = None \<longleftrightarrow>
      (\<forall>q t'. q \<noteq> [] \<and> subtree e q = Some t' \<longrightarrow> \<not> ?P t')"
    unfolding find_tag_None find_all_def filter_empty_conv
    using descendants_positions [of _ e] by blast
  have forward: "\<exists>p. p \<noteq> [] \<and> subtree e p = Some u \<and> ?P u
         \<and> (\<forall>q t'. q \<noteq> [] \<and> subtree e q = Some t' \<and> ?P t' \<longrightarrow> p \<le> q)"
    if "find_tag nm want e = Some u" for u
  proof -
    from that obtain us where f: "filter ?P (descendants e) = u # us"
      by (auto simp: find_tag_Some find_all_def)
    then have "?P u"
      by (metis filter_eq_ConsD)
    with first_in_tree [OF f] show ?thesis by blast
  qed
  have backward: "find_tag nm want e = Some t" if "?first p" for p
  proof (cases "find_tag nm want e")
    case None
    with none that show ?thesis by blast
  next
    case (Some u)
    from forward [OF Some] obtain r where r: "r \<noteq> []" "subtree e r = Some u" "?P u"
      "\<forall>q t'. q \<noteq> [] \<and> subtree e q = Some t' \<and> ?P t' \<longrightarrow> r \<le> q"
      by blast
    from r that have "r \<le> p" "p \<le> r"
      by blast+
    then have "r = p" by simp
    with r(2) that Some show ?thesis by simp
  qed
  from forward backward have some: "find_tag nm want e = Some t \<longleftrightarrow> (\<exists>p. ?first p)"
    by blast
  show ?thesis
    using some none
    by (simp add: item_children item_title_def item_link_def item_content_def date_str_cases)
qed

theorem lookup_any_depth_witness:
  "subtree nested_entry [0, 0] = Some (Tag ''title'' [] [NavigableString PlainText ''Deep''])
   \<and> subtree nested_entry [1] = Some (Tag ''title'' [] [NavigableString PlainText ''Shallow''])
   \<and> find_tag ''title'' [] nested_entry = Some (Tag ''title'' [] [NavigableString PlainText ''Deep''])
   \<and> children_named ''title'' (convert_entry model_dates nested_entry) = [new_text_tag ''title'' ''Deep'']"
proof -
  let ?deep = "Tag ''title'' [] [NavigableString PlainText ''Deep'']"
  note rule = lookup_any_depth [of "''title''" "[]" nested_entry ?deep model_dates]
  have at: "subtree nested_entry [0, 0] = Some ?deep"
    "subtree nested_entry [1] = Some (Tag ''title'' [] [NavigableString PlainText ''Shallow''])"
    by (simp_all add: nested_entry_def)
  have first: "[0, 0] \<le> q"
    if "q \<noteq> []" "subtree nested_entry q = Some t'" "matches ''title'' [] t'" for q :: "nat list" and t'
  proof (cases q)
    case Nil
    with that show ?thesis by simp
  next
    case outer: (Cons j r)
    show ?thesis
    proof (cases r)
      case Nil
      have "j \<noteq> 0"
      proof
        assume "j = 0"
        with that(2) outer Nil have "matches ''title'' [] t' = False"
          by (auto simp: nested_entry_def)
        with that(3) show False by simp
      qed
      with outer show ?thesis by simp
    next
      case (Cons k r')
      with outer show ?thesis
        by (cases "j = 0"; cases "k = 0") simp_all
    qed
  qed
  have "matches ''title'' [] ?deep"
    by simp
  with at(1) first have "\<exists>p. p \<noteq> [] \<and> subtree nested_entry p = Some ?deep \<and> matches ''title'' [] ?deep
         \<and> (\<forall>q t'. q \<noteq> [] \<and> subtree nested_entry q = Some t' \<and> matches ''title'' [] t' \<longrightarrow> p \<le> q)"
    by (intro exI [of _ "[0, 0]"]) blast
  with rule have found: "find_tag ''title'' [] nested_entry = Some ?deep"
    by blast
  have "get_text ?deep = ''Deep''"
    by (simp add: get_text_def stripped_strings_def strip_def isspace_def)
  with rule found have "children_named ''title'' (convert_entry model_dates nested_entry)
      = [new_text_tag ''title'' ''Deep'']"
    by simp
  with at found show ?thesis by blast
qed

end
